theory Spec2Isabelle
  imports Complex_Main
begin

section \<open>The number type of the picker\<close>

text \<open>
  \<^verbatim>\<open>DoubleReal\<close> is an IEEE 754 binary64 number. The picker divides by quantities
  that can be zero, takes square roots and logarithms of quantities that can be
  negative, and accepts a fit by comparing its area with infinity, so the special
  values are part of its behaviour and are kept: a value is a finite number, one
  of the two infinities, or not-a-number. Finite values are reals and rounding
  is not modelled: sums, products, quotients, square roots and logarithms of
  finite values are exact. The range of binary64 is modelled where the fit leaves
  it for samples of ordinary size, in the results of \<^verbatim>\<open>std::pow\<close> and
  \<^verbatim>\<open>std::exp\<close>. Zero carries no sign: every divisor of the picker is a
  logarithm, a multiple of the square of the deviation or the square root of
  one, none of which is a negative zero, and everywhere else a negative zero
  compares and computes like zero.
\<close>

datatype dbl = Fin real | PInf | NInf | NaN

instantiation dbl :: "{plus, minus, uminus, times, inverse, ord}"
begin

fun plus_dbl :: "dbl \<Rightarrow> dbl \<Rightarrow> dbl" where
  "plus_dbl NaN _ = NaN"
| "plus_dbl _ NaN = NaN"
| "plus_dbl (Fin a) (Fin b) = Fin (a + b)"
| "plus_dbl PInf NInf = NaN"
| "plus_dbl NInf PInf = NaN"
| "plus_dbl PInf _ = PInf"
| "plus_dbl _ PInf = PInf"
| "plus_dbl NInf _ = NInf"
| "plus_dbl _ NInf = NInf"

fun uminus_dbl :: "dbl \<Rightarrow> dbl" where
  "uminus_dbl (Fin a) = Fin (- a)"
| "uminus_dbl PInf = NInf"
| "uminus_dbl NInf = PInf"
| "uminus_dbl NaN = NaN"

definition minus_dbl :: "dbl \<Rightarrow> dbl \<Rightarrow> dbl" where
  "minus_dbl a b = a + (- b)"

fun times_dbl :: "dbl \<Rightarrow> dbl \<Rightarrow> dbl" where
  "times_dbl NaN _ = NaN"
| "times_dbl _ NaN = NaN"
| "times_dbl (Fin a) (Fin b) = Fin (a * b)"
| "times_dbl (Fin a) PInf = (if a = 0 then NaN else if 0 < a then PInf else NInf)"
| "times_dbl (Fin a) NInf = (if a = 0 then NaN else if 0 < a then NInf else PInf)"
| "times_dbl PInf (Fin b) = (if b = 0 then NaN else if 0 < b then PInf else NInf)"
| "times_dbl NInf (Fin b) = (if b = 0 then NaN else if 0 < b then NInf else PInf)"
| "times_dbl PInf PInf = PInf"
| "times_dbl PInf NInf = NInf"
| "times_dbl NInf PInf = NInf"
| "times_dbl NInf NInf = PInf"

fun divide_dbl :: "dbl \<Rightarrow> dbl \<Rightarrow> dbl" where
  "divide_dbl NaN _ = NaN"
| "divide_dbl _ NaN = NaN"
| "divide_dbl (Fin a) (Fin b) =
     (if b = 0 then (if a = 0 then NaN else if 0 < a then PInf else NInf)
      else Fin (a / b))"
| "divide_dbl (Fin a) _ = Fin 0"
| "divide_dbl PInf (Fin b) = (if 0 \<le> b then PInf else NInf)"
| "divide_dbl NInf (Fin b) = (if 0 \<le> b then NInf else PInf)"
| "divide_dbl _ _ = NaN"

definition inverse_dbl :: "dbl \<Rightarrow> dbl" where
  "inverse_dbl a = divide (Fin 1) a"

fun less_dbl :: "dbl \<Rightarrow> dbl \<Rightarrow> bool" where
  "less_dbl NaN _ = False"
| "less_dbl _ NaN = False"
| "less_dbl (Fin a) (Fin b) = (a < b)"
| "less_dbl _ NInf = False"
| "less_dbl PInf _ = False"
| "less_dbl _ _ = True"

definition less_eq_dbl :: "dbl \<Rightarrow> dbl \<Rightarrow> bool" where
  "less_eq_dbl a b = (a < b \<or> (a \<noteq> NaN \<and> a = b))"

instance ..

end

text \<open>The range of binary64: a result of magnitude \<open>2 ^ 1024\<close> or more overflows
  to an infinity, and a result of magnitude \<open>2 ^ -1075\<close> or less, half the least
  positive value, underflows to zero.\<close>

definition range64 :: "real \<Rightarrow> dbl" where
  "range64 r =
     (if 2 ^ 1024 \<le> \<bar>r\<bar> then (if 0 < r then PInf else NInf)
      else if \<bar>r\<bar> \<le> 1 / 2 ^ 1075 then Fin 0
      else Fin r)"

text \<open>\<^verbatim>\<open>std::fabs\<close>, \<^verbatim>\<open>std::log\<close>, \<^verbatim>\<open>std::sqrt\<close>, \<^verbatim>\<open>std::exp\<close> and \<^verbatim>\<open>std::pow\<close>, with the
  special cases of the C standard's annex on IEEE arithmetic.\<close>

fun dfabs :: "dbl \<Rightarrow> dbl" where
  "dfabs (Fin a) = Fin \<bar>a\<bar>"
| "dfabs PInf = PInf"
| "dfabs NInf = PInf"
| "dfabs NaN = NaN"

fun dlog :: "dbl \<Rightarrow> dbl" where
  "dlog (Fin a) = (if 0 < a then Fin (ln a) else if a = 0 then NInf else NaN)"
| "dlog PInf = PInf"
| "dlog NInf = NaN"
| "dlog NaN = NaN"

fun dsqrt :: "dbl \<Rightarrow> dbl" where
  "dsqrt (Fin a) = (if 0 \<le> a then Fin (sqrt a) else NaN)"
| "dsqrt PInf = PInf"
| "dsqrt NInf = NaN"
| "dsqrt NaN = NaN"

fun dexp :: "dbl \<Rightarrow> dbl" where
  "dexp (Fin a) = range64 (exp a)"
| "dexp PInf = PInf"
| "dexp NInf = Fin 0"
| "dexp NaN = NaN"

definition odd_integer :: "real \<Rightarrow> bool" where
  "odd_integer b = (b \<in> \<int> \<and> odd \<lfloor>b\<rfloor>)"

fun dpow :: "dbl \<Rightarrow> dbl \<Rightarrow> dbl" where
  "dpow x (Fin b) =
     (if b = 0 then Fin 1
      else case x of
        Fin a \<Rightarrow>
          if 0 < a then range64 (a powr b)
          else if a = 0 then (if b < 0 then PInf else Fin 0)
          else if b \<in> \<int> then range64 (a powi \<lfloor>b\<rfloor>)
          else NaN
      | PInf \<Rightarrow> (if b < 0 then Fin 0 else PInf)
      | NInf \<Rightarrow> (if b < 0 then Fin 0 else if odd_integer b then NInf else PInf)
      | NaN \<Rightarrow> NaN)"
| "dpow x PInf =
     (case x of
        Fin a \<Rightarrow> (if \<bar>a\<bar> < 1 then Fin 0 else if 1 < \<bar>a\<bar> then PInf else Fin 1)
      | PInf \<Rightarrow> PInf
      | NInf \<Rightarrow> PInf
      | NaN \<Rightarrow> NaN)"
| "dpow x NInf =
     (case x of
        Fin a \<Rightarrow> (if \<bar>a\<bar> < 1 then PInf else if 1 < \<bar>a\<bar> then Fin 0 else Fin 1)
      | PInf \<Rightarrow> Fin 0
      | NInf \<Rightarrow> Fin 0
      | NaN \<Rightarrow> NaN)"
| "dpow x NaN = (if x = Fin 1 then Fin 1 else NaN)"

section \<open>Peaks and the three-point Gaussian fit\<close>

text \<open>Modelled from the spec: the peak type is a template parameter declared
  outside the given source. A peak holds its m/z and its intensity, both read and
  written as \<^verbatim>\<open>DoubleReal\<close>.\<close>

record peak =
  getMZ :: dbl
  getIntensity :: dbl

text \<open>The result of \<^verbatim>\<open>computeTPG\<close>: the returned flag and the three reference
  parameters it writes.\<close>

record fit_result =
  fit_ok :: bool
  fit_mu :: dbl
  fit_sigma :: dbl
  fit_area :: dbl

definition computeTPG :: "peak \<Rightarrow> peak \<Rightarrow> peak \<Rightarrow> fit_result" where
  "computeTPG p1 p2 p3 =
     (let x1 = getMZ p1; y1 = getIntensity p1;
          x2 = getMZ p2; y2 = getIntensity p2;
          x3 = getMZ p3; y3 = getIntensity p3;
          denom = dlog (dpow y1 (x3 - x2) * dpow y2 (x1 - x3) * dpow y3 (x2 - x1));
          mu = Fin 0.5 * (dlog (dpow y1 (x3 * x3 - x2 * x2) * dpow y2 (x1 * x1 - x3 * x3)
                                 * dpow y3 (x2 * x2 - x1 * x1)) / denom);
          sigma = dsqrt (Fin 0.5 * ((x1 - x3) * (x2 - x1) * (x3 - x2)) / denom);
          area = dsqrt (Fin 2 * Fin pi * sigma * sigma) * dpow (y1 * y2 * y3) (Fin 1 / Fin 3)
                 * dexp (((x1 - mu) * (x1 - mu) + (x2 - mu) * (x2 - mu) + (x3 - mu) * (x3 - mu))
                         / (Fin 6 * sigma * sigma))
      in \<lparr>fit_ok = (area \<noteq> PInf), fit_mu = mu, fit_sigma = sigma, fit_area = area\<rparr>)"

definition computeScaledGaussian :: "dbl \<Rightarrow> dbl \<Rightarrow> dbl \<Rightarrow> dbl \<Rightarrow> dbl" where
  "computeScaledGaussian x mu sigma area =
     (area / dsqrt (Fin 2 * Fin pi * sigma * sigma))
     * dexp (- ((x - mu) * (x - mu)) / (Fin 2 * sigma * sigma))"

section \<open>Spectra, experiments and options\<close>

text \<open>Modelled from the spec: the containers \<^verbatim>\<open>MSSpectrum\<close> and \<^verbatim>\<open>MSExperiment\<close> are
  declared outside the given source. A spectrum is a vector of peaks with the
  metadata that \<open>pick\<close> sets: retention time, MS level, name, type tag, settings
  and annotations. The settings and the annotations (\<^verbatim>\<open>SpectrumSettings\<close>,
  \<^verbatim>\<open>MetaInfoInterface\<close>) are only ever assigned as a whole, so they are type
  parameters; the type tag is the one field of the settings that the picker sets
  by itself. An experiment is a vector of spectra with its settings.\<close>

text \<open>Modelled from the spec: the enumeration \<^verbatim>\<open>SpectrumSettings::SpectrumType\<close> is
  declared outside the given source, which names its value \<^verbatim>\<open>PEAKS\<close> only; the
  other two tags stand for the raw and the unknown kind of spectrum.\<close>

datatype spectrum_type = UNKNOWN | PEAKS | RAWDATA

record ('s, 'm) spectrum =
  peaks :: "peak list"
  getRT :: dbl
  getMSLevel :: nat
  getName :: string
  getType :: spectrum_type
  settings :: 's
  meta_info :: 'm

record ('s, 'm, 'e) ms_experiment =
  spectra :: "('s, 'm) spectrum list"
  experimental_settings :: 'e

text \<open>Modelled from the spec: the parameter object \<^verbatim>\<open>param_\<close> belongs to a base
  class outside the given source; the picker reads the resolved values of two
  options from it. The record is extensible, as the parameter object holds
  whatever else its owner stored.\<close>

record params =
  intensity_type :: string
  ms1_only :: bool

datatype error = OutOfBounds

text \<open>A read outside a vector is undefined in C++; the model returns it as an
  error. \<^verbatim>\<open>Size\<close> is the unsigned type of \<^verbatim>\<open>size()\<close>, taken as 64 bits wide: a
  difference wraps around. A vector holds fewer than \<open>2 ^ 64\<close> elements, so an
  index that is in range does not wrap when it is incremented.\<close>

definition size_minus :: "nat \<Rightarrow> nat \<Rightarrow> nat" where
  "size_minus a b = (if b \<le> a then a - b else a + 2 ^ 64 - b)"

section \<open>Picking one spectrum\<close>

text \<open>The test on the five points around \<open>i\<close>, with the local variables of the
  loop body.\<close>

definition is_peak_core :: "peak list \<Rightarrow> nat \<Rightarrow> bool" where
  "is_peak_core input i =
     (let central_peak_mz = getMZ (input ! i); central_peak_int = getIntensity (input ! i);
          l1_neighbor_mz = getMZ (input ! (i - 1)); l1_neighbor_int = getIntensity (input ! (i - 1));
          r1_neighbor_mz = getMZ (input ! (i + 1)); r1_neighbor_int = getIntensity (input ! (i + 1));
          l2_neighbor_mz = getMZ (input ! (i - 2)); l2_neighbor_int = getIntensity (input ! (i - 2));
          r2_neighbor_mz = getMZ (input ! (i + 2)); r2_neighbor_int = getIntensity (input ! (i + 2));
          l1_to_central = dfabs (central_peak_mz - l1_neighbor_mz);
          l2_to_l1 = dfabs (l1_neighbor_mz - l2_neighbor_mz);
          central_to_r1 = dfabs (r1_neighbor_mz - central_peak_mz);
          r1_to_r2 = dfabs (r2_neighbor_mz - r1_neighbor_mz);
          min_spacing = (if l1_to_central < central_to_r1 then l1_to_central else central_to_r1)
      in central_peak_int > Fin 1.0 \<and> l1_neighbor_int > Fin 1.0 \<and> l2_neighbor_int > Fin 1.0
         \<and> r1_neighbor_int > Fin 1.0 \<and> r2_neighbor_int > Fin 1.0
         \<and> l1_to_central < Fin 1.5 * min_spacing
         \<and> l2_to_l1 < Fin 1.5 * min_spacing
         \<and> (l2_neighbor_int < l1_neighbor_int \<and> l1_neighbor_int < central_peak_int)
         \<and> central_to_r1 < Fin 1.5 * min_spacing
         \<and> r1_to_r2 < Fin 1.5 * min_spacing
         \<and> (r2_neighbor_int < r1_neighbor_int \<and> r1_neighbor_int < central_peak_int))"

text \<open>The body of the loop reads \<open>input[i - 2]\<close> to \<open>input[i + 2]\<close>; a read outside the
  vector is the error. It returns the index that the loop tests next (the jump
  \<open>i = i + k - 1\<close> and the increment of the loop) and the output so far.\<close>

definition in_window :: "peak list \<Rightarrow> nat \<Rightarrow> bool" where
  "in_window input i = (2 \<le> i \<and> i + 2 < length input)"

definition loop_body :: "peak list \<Rightarrow> bool \<Rightarrow> nat \<Rightarrow> peak list \<Rightarrow> error + nat \<times> peak list" where
  "loop_body input intensity_type_area i output =
     (if \<not> in_window input i then Inl OutOfBounds
      else if is_peak_core input i then
        (let fit = computeTPG (input ! (i - 1)) (input ! i) (input ! (i + 1));
             mu = fit_mu fit; sigma = fit_sigma fit; area = fit_area fit;
             compOK = fit_ok fit;
             k = 2;
             output' =
               (if compOK then
                  (let output_intensity =
                         (if intensity_type_area then area
                          else computeScaledGaussian mu mu sigma area)
                   in output @ [\<lparr>getMZ = mu, getIntensity = output_intensity\<rparr>])
                else output);
             i' = i + k - 1
         in Inr (i' + 1, output'))
      else Inr (i + 1, output))"

function scan :: "peak list \<Rightarrow> bool \<Rightarrow> nat \<Rightarrow> peak list \<Rightarrow> error + peak list" where
  "scan input intensity_type_area i output =
     (if i < size_minus (length input) 2 then
        (case loop_body input intensity_type_area i output of
           Inl e \<Rightarrow> Inl e
         | Inr (i', output') \<Rightarrow> scan input intensity_type_area i' output')
      else Inr output)"
  by pat_completeness auto
termination
  by (relation "measure (\<lambda>(input, a, i, output). length input - i)")
     (auto simp: loop_body_def in_window_def Let_def split: if_splits)

definition pick :: "'a params_scheme \<Rightarrow> ('s, 'm) spectrum \<Rightarrow> error + ('s, 'm) spectrum" where
  "pick param input =
     (let output = \<lparr>peaks = [], getRT = getRT input, getMSLevel = getMSLevel input,
                    getName = getName input, getType = PEAKS,
                    settings = settings input, meta_info = meta_info input\<rparr>;
          intensity_type_area = (intensity_type param = ''peakarea'')
      in case scan (peaks input) intensity_type_area 2 [] of
           Inl e \<Rightarrow> Inl e
         | Inr ps \<Rightarrow> Inr (output\<lparr>peaks := ps\<rparr>))"

section \<open>Picking an experiment\<close>

text \<open>The output is resized to the size of the input, then every slot is
  assigned. \<open>blank\<close> is the default-constructed spectrum that fills the resized
  output; its constructor is outside the given source. The progress calls have no
  effect on the output and are left out.\<close>

function experiment_loop ::
  "'a params_scheme \<Rightarrow> bool \<Rightarrow> ('s, 'm) spectrum list \<Rightarrow> nat \<Rightarrow> ('s, 'm) spectrum list
     \<Rightarrow> error + ('s, 'm) spectrum list" where
  "experiment_loop param ms1 input scan_idx output =
     (if scan_idx \<noteq> length input then
        (if \<not> (scan_idx < length input \<and> scan_idx < length output) then Inl OutOfBounds
         else if ms1 \<and> getMSLevel (input ! scan_idx) \<noteq> 1 then
           experiment_loop param ms1 input (scan_idx + 1) (output[scan_idx := input ! scan_idx])
         else
           (case pick param (input ! scan_idx) of
              Inl e \<Rightarrow> Inl e
            | Inr s \<Rightarrow> experiment_loop param ms1 input (scan_idx + 1) (output[scan_idx := s])))
      else Inr output)"
  by pat_completeness auto
termination
  by (relation "measure (\<lambda>(param, ms1, input, scan_idx, output). length input - scan_idx)") auto

definition pickExperiment ::
  "'a params_scheme \<Rightarrow> ('s, 'm) spectrum \<Rightarrow> ('s, 'm, 'e) ms_experiment
     \<Rightarrow> error + ('s, 'm, 'e) ms_experiment" where
  "pickExperiment param blank input =
     (let output = replicate (length (spectra input)) blank;
          ms1 = ms1_only param
      in case experiment_loop param ms1 (spectra input) 0 output of
           Inl e \<Rightarrow> Inl e
         | Inr ss \<Rightarrow> Inr \<lparr>spectra = ss, experimental_settings = experimental_settings input\<rparr>)"

section \<open>The notions of the specification\<close>

text \<open>The acceptance test in the words of the specification: the spacing of two
  samples is the distance of their m/z values, \<open>min_spacing\<close> is the lesser of the
  two spacings next to the centre, the five intensities exceed 1, the four
  spacings stay below one and a half times \<open>min_spacing\<close>, and the intensities
  ascend strictly towards the centre on both flanks.\<close>

definition spacing :: "peak list \<Rightarrow> nat \<Rightarrow> nat \<Rightarrow> dbl" where
  "spacing input j k = dfabs (getMZ (input ! k) - getMZ (input ! j))"

definition lesser :: "dbl \<Rightarrow> dbl \<Rightarrow> dbl" where
  "lesser a b = (if b < a then b else a)"

definition candidate_apex :: "peak list \<Rightarrow> nat \<Rightarrow> bool" where
  "candidate_apex input i =
     (let intensity = (\<lambda>k. getIntensity (input ! k));
          left_of_center = spacing input (i - 1) i;
          left_left = spacing input (i - 2) (i - 1);
          right_of_center = spacing input i (i + 1);
          right_right = spacing input (i + 1) (i + 2);
          min_spacing = lesser left_of_center right_of_center
      in list_all (\<lambda>k. Fin 1 < intensity k) [i - 2 ..< i + 3]
         \<and> list_all (\<lambda>s. s < Fin 1.5 * min_spacing)
              [left_of_center, left_left, right_of_center, right_right]
         \<and> intensity (i - 2) < intensity (i - 1) \<and> intensity (i - 1) < intensity i
         \<and> intensity (i + 2) < intensity (i + 1) \<and> intensity (i + 1) < intensity i)"

text \<open>The states in which the loop of \<open>pick\<close> runs its body: it starts at index 2
  with no output, and from a state whose body returns it goes on to the returned
  index and output, as long as the loop condition holds there.\<close>

inductive examined :: "peak list \<Rightarrow> bool \<Rightarrow> nat \<Rightarrow> peak list \<Rightarrow> bool"
  for input :: "peak list" and a :: bool where
  examined_first: "2 < size_minus (length input) 2 \<Longrightarrow> examined input a 2 []"
| examined_next: "examined input a i out \<Longrightarrow> loop_body input a i out = Inr (i', out')
     \<Longrightarrow> i' < size_minus (length input) 2 \<Longrightarrow> examined input a i' out'"

text \<open>A value that is not below zero: a finite number from zero on, positive
  infinity, or not-a-number. Squares, square roots and cube roots are of this
  kind, which decides the sign of an infinite area.\<close>

definition not_negative :: "dbl \<Rightarrow> bool" where
  "not_negative x = (case x of Fin r \<Rightarrow> 0 \<le> r | PInf \<Rightarrow> True | NInf \<Rightarrow> False | NaN \<Rightarrow> True)"

text \<open>Spectra for the examples. Seven samples sorted by m/z with one peak around
  index 2; the same peak shape at m/z 998 to 1002; and five samples whose m/z
  rises to 2 and falls again, which is not sorted.\<close>

definition example_peaks :: "peak list" where
  "example_peaks =
     [\<lparr>getMZ = Fin 1, getIntensity = Fin 2\<rparr>, \<lparr>getMZ = Fin 2, getIntensity = Fin 4\<rparr>,
      \<lparr>getMZ = Fin 3, getIntensity = Fin 8\<rparr>, \<lparr>getMZ = Fin 4, getIntensity = Fin 4\<rparr>,
      \<lparr>getMZ = Fin 5, getIntensity = Fin 2\<rparr>, \<lparr>getMZ = Fin 6, getIntensity = Fin 1\<rparr>,
      \<lparr>getMZ = Fin 7, getIntensity = Fin 1\<rparr>]"

definition distant_peaks :: "peak list" where
  "distant_peaks =
     [\<lparr>getMZ = Fin 998, getIntensity = Fin 2\<rparr>, \<lparr>getMZ = Fin 999, getIntensity = Fin 4\<rparr>,
      \<lparr>getMZ = Fin 1000, getIntensity = Fin 8\<rparr>, \<lparr>getMZ = Fin 1001, getIntensity = Fin 4\<rparr>,
      \<lparr>getMZ = Fin 1002, getIntensity = Fin 2\<rparr>]"

definition folded_peaks :: "peak list" where
  "folded_peaks =
     [\<lparr>getMZ = Fin 0, getIntensity = Fin 2\<rparr>, \<lparr>getMZ = Fin 1, getIntensity = Fin 4\<rparr>,
      \<lparr>getMZ = Fin 2, getIntensity = Fin 8\<rparr>, \<lparr>getMZ = Fin 1, getIntensity = Fin 4\<rparr>,
      \<lparr>getMZ = Fin 0, getIntensity = Fin 2\<rparr>]"

declare scan.simps [simp del]
declare experiment_loop.simps [simp del]

section \<open>The loop of \<open>pick\<close>\<close>

lemma loop_body_reject:
  "in_window input i \<Longrightarrow> \<not> is_peak_core input i \<Longrightarrow> loop_body input a i out = Inr (i + 1, out)"
  by (simp add: loop_body_def)

lemma loop_body_accept:
  assumes "in_window input i" "is_peak_core input i"
    and "fit = computeTPG (input ! (i - 1)) (input ! i) (input ! (i + 1))"
  shows "loop_body input a i out =
           Inr (i + 2,
                if fit_ok fit then
                  out @ [\<lparr>getMZ = fit_mu fit,
                          getIntensity = (if a then fit_area fit
                                          else computeScaledGaussian (fit_mu fit) (fit_mu fit)
                                                 (fit_sigma fit) (fit_area fit))\<rparr>]
                else out)"
  using assms by (simp add: loop_body_def Let_def)

lemma loop_body_next:
  "in_window input i \<Longrightarrow>
     \<exists>out'. loop_body input a i out = Inr (if is_peak_core input i then i + 2 else i + 1, out')"
  by (cases "is_peak_core input i") (simp_all add: loop_body_accept loop_body_reject)

lemma loop_body_window:
  "loop_body input a i out = Inr (i', out') \<Longrightarrow> in_window input i"
  by (simp add: loop_body_def split: if_splits)

lemma scan_out_of_bounds:
  "length input < 2 \<Longrightarrow> scan input a 2 out = Inl OutOfBounds"
  by (subst scan.simps) (simp add: size_minus_def loop_body_def in_window_def)

lemma scan_done:
  "\<not> i < size_minus (length input) 2 \<Longrightarrow> scan input a i out = Inr out"
  by (subst scan.simps) simp

lemma scan_step:
  "i < size_minus (length input) 2 \<Longrightarrow> loop_body input a i out = Inr (i', out')
     \<Longrightarrow> scan input a i out = scan input a i' out'"
  by (subst scan.simps) simp

text \<open>With two samples or more the difference \<open>size() - 2\<close> does not wrap, every
  index below it has its window inside the vector, and the loop returns.\<close>

lemma scan_returns:
  "2 \<le> length input \<Longrightarrow> 2 \<le> i \<Longrightarrow> \<exists>ps. scan input a i out = Inr ps"
proof (induction input a i out rule: scan.induct)
  case (1 input a i out)
  show ?case
  proof (cases "i < size_minus (length input) 2")
    case False
    then show ?thesis by (simp add: scan_done)
  next
    case True
    with "1.prems" have w: "in_window input i"
      by (auto simp: size_minus_def in_window_def)
    then obtain i' out' where b: "loop_body input a i out = Inr (i', out')"
      using loop_body_next by blast
    with w have "i < i'"
      using loop_body_next [OF w, of a out] by (auto split: if_splits)
    with "1.prems" have "2 \<le> i'" by simp
    with "1.IH" [OF True b refl] "1.prems"
    have "\<exists>ps. scan input a i' out' = Inr ps" by simp
    with True b show ?thesis by (simp add: scan_step)
  qed
qed

text \<open>So \<open>pick\<close> returns on such a spectrum: the output is the copied metadata,
  the tag \<open>PEAKS\<close> and the peaks that the loop collected.\<close>

lemma pick_returns:
  assumes "2 \<le> length (peaks input)"
  shows "\<exists>ps. pick param input =
           Inr \<lparr>peaks = ps, getRT = getRT input, getMSLevel = getMSLevel input,
                getName = getName input, getType = PEAKS,
                settings = settings input, meta_info = meta_info input\<rparr>"
proof -
  from assms obtain ps where "scan (peaks input) (intensity_type param = ''peakarea'') 2 [] = Inr ps"
    using scan_returns [of "peaks input" 2] by blast
  then show ?thesis by (simp add: pick_def)
qed

section \<open>Metadata of the output\<close>

text \<open>
  C1, as amended. For every input spectrum with at least two samples, \<open>pick\<close>
  returns an output whose retention time, MS level, name, settings and
  annotations are the input's; the type tag of the output is \<open>PEAKS\<close>, whatever
  the tag of the input.
\<close>

theorem pick_metadata:
  assumes "2 \<le> length (peaks input)"
  shows "\<exists>out. pick param input = Inr out
           \<and> getRT out = getRT input \<and> getMSLevel out = getMSLevel input
           \<and> getName out = getName input \<and> settings out = settings input
           \<and> meta_info out = meta_info input \<and> getType out = PEAKS"
  using pick_returns [OF assms, of param] by auto

theorem pick_metadata_witness:
  "\<exists>out. pick \<lparr>intensity_type = ''peakarea'', ms1_only = False\<rparr>
            \<lparr>peaks = [\<lparr>getMZ = Fin 1, getIntensity = Fin 2\<rparr>, \<lparr>getMZ = Fin 2, getIntensity = Fin 3\<rparr>],
             getRT = Fin 7, getMSLevel = 1, getName = ''scan'', getType = RAWDATA,
             settings = (), meta_info = ()\<rparr> = Inr out
         \<and> getRT out = Fin 7 \<and> getMSLevel out = 1 \<and> getName out = ''scan''
         \<and> getType out = PEAKS"
  using pick_metadata [of "\<lparr>peaks = [\<lparr>getMZ = Fin 1, getIntensity = Fin 2\<rparr>,
                                       \<lparr>getMZ = Fin 2, getIntensity = Fin 3\<rparr>],
             getRT = Fin 7, getMSLevel = 1, getName = ''scan'', getType = RAWDATA,
             settings = (), meta_info = ()\<rparr>" "\<lparr>intensity_type = ''peakarea'', ms1_only = False\<rparr>"]
  by simp

text \<open>The type tag is not copied: a raw spectrum comes out tagged as picked
  peaks.\<close>

theorem pick_type_tag_counterexample:
  "pick \<lparr>intensity_type = ''peakarea'', ms1_only = False\<rparr>
     \<lparr>peaks = [\<lparr>getMZ = Fin 1, getIntensity = Fin 2\<rparr>, \<lparr>getMZ = Fin 2, getIntensity = Fin 3\<rparr>],
      getRT = Fin 7, getMSLevel = 1, getName = ''scan'', getType = RAWDATA,
      settings = (), meta_info = ()\<rparr>
   = Inr \<lparr>peaks = [], getRT = Fin 7, getMSLevel = 1, getName = ''scan'', getType = PEAKS,
          settings = (), meta_info = ()\<rparr>
   \<and> PEAKS \<noteq> RAWDATA"
  by (simp add: pick_def scan_done size_minus_def)

section \<open>Spectra with few samples\<close>

text \<open>
  C3. A spectrum with no sample or one sample: the loop condition
  \<open>i < input.size() - 2\<close> is computed in the unsigned type and holds at \<open>i = 2\<close>,
  so the body reads \<open>input[2]\<close> outside the vector. The specification says that
  \<open>pick\<close> returns an output without peaks there.
\<close>

theorem pick_short_spectrum:
  "length (peaks input) < 2 \<Longrightarrow> pick param input = Inl OutOfBounds"
  by (simp add: pick_def scan_out_of_bounds)

theorem pick_short_spectrum_witness:
  "pick \<lparr>intensity_type = ''peakarea'', ms1_only = False\<rparr>
     \<lparr>peaks = [], getRT = Fin 0, getMSLevel = 1, getName = [], getType = RAWDATA,
      settings = (), meta_info = ()\<rparr> = Inl OutOfBounds"
  using pick_short_spectrum [of "\<lparr>peaks = [], getRT = Fin 0, getMSLevel = 1, getName = [],
      getType = RAWDATA, settings = (), meta_info = ()\<rparr>"
      "\<lparr>intensity_type = ''peakarea'', ms1_only = False\<rparr>"]
  by simp

text \<open>With two, three or four samples the difference does not wrap, the loop
  does not run, and the output has the metadata and no peak.\<close>

lemma pick_few_samples:
  assumes "2 \<le> length (peaks input)" "length (peaks input) \<le> 4"
  shows "pick param input =
           Inr \<lparr>peaks = [], getRT = getRT input, getMSLevel = getMSLevel input,
                getName = getName input, getType = PEAKS,
                settings = settings input, meta_info = meta_info input\<rparr>"
  using assms by (simp add: pick_def scan_done size_minus_def)

section \<open>The acceptance test\<close>

lemma window_indices: "2 \<le> i \<Longrightarrow> [i - 2 ..< i + 3] = [i - 2, i - 1, i, i + 1, i + 2]"
proof -
  assume "2 \<le> i"
  then obtain j where "i = j + 2" by (metis le_add_diff_inverse2)
  then show ?thesis by (simp add: upt_rec)
qed

text \<open>The code takes the right spacing when the left one is not below it, the
  lesser of the two takes the left one when the right one is not below it: they
  differ only when a spacing is not-a-number, and then the test fails with
  either.\<close>

lemma lesser_or_no_bound:
  "(if a < c then a else c) = lesser a c \<or> (\<forall>x. \<not> a < x) \<or> (\<forall>x. \<not> c < x)"
  by (cases a; cases c) (auto simp: lesser_def)

text \<open>
  C4. For every index \<open>i\<close> whose window \<open>i - 2 .. i + 2\<close> is inside the vector, the
  test of the loop accepts \<open>i\<close> if and only if the five intensities exceed 1, the
  four spacings are below 1.5 times the lesser of the two central spacings, and
  the intensities ascend strictly towards \<open>i\<close> on both flanks.
\<close>

theorem is_peak_core_iff_candidate_apex:
  assumes "in_window input i"
  shows "is_peak_core input i \<longleftrightarrow> candidate_apex input i"
proof -
  from assms have i: "2 \<le> i" by (simp add: in_window_def)
  define a where "a = dfabs (getMZ (input ! i) - getMZ (input ! (i - 1)))"
  define c where "c = dfabs (getMZ (input ! (i + 1)) - getMZ (input ! i))"
  consider "(if a < c then a else c) = lesser a c" | "\<forall>x. \<not> a < x" | "\<forall>x. \<not> c < x"
    using lesser_or_no_bound by blast
  then show ?thesis
  proof cases
    case 1
    then show ?thesis
      unfolding is_peak_core_def candidate_apex_def spacing_def Let_def window_indices [OF i]
        a_def c_def
      by auto
  next
    case 2
    then show ?thesis
      unfolding is_peak_core_def candidate_apex_def spacing_def Let_def window_indices [OF i]
        a_def c_def
      by simp
  next
    case 3
    then show ?thesis
      unfolding is_peak_core_def candidate_apex_def spacing_def Let_def window_indices [OF i]
        a_def c_def
      by simp
  qed
qed

theorem is_peak_core_iff_candidate_apex_witness:
  "in_window example_peaks 2 \<and> is_peak_core example_peaks 2 \<and> candidate_apex example_peaks 2
   \<and> in_window example_peaks 3 \<and> \<not> is_peak_core example_peaks 3
   \<and> \<not> candidate_apex example_peaks 3"
proof -
  have w: "in_window example_peaks 2" "in_window example_peaks 3"
    by (simp_all add: in_window_def example_peaks_def)
  have c: "is_peak_core example_peaks 2"
    by (simp add: is_peak_core_def Let_def minus_dbl_def example_peaks_def)
  have d: "\<not> is_peak_core example_peaks 3"
    by (simp add: is_peak_core_def Let_def minus_dbl_def example_peaks_def)
  from w c d is_peak_core_iff_candidate_apex [of example_peaks 2]
    is_peak_core_iff_candidate_apex [of example_peaks 3]
  show ?thesis by simp
qed

section \<open>The advance of the scan\<close>

lemma loop_body_index:
  assumes "loop_body input a i out = Inr (i', out')"
  shows "in_window input i \<and> i' = (if is_peak_core input i then i + 2 else i + 1)"
proof -
  from assms have w: "in_window input i" by (rule loop_body_window)
  from loop_body_next [OF w, of a out] assms show ?thesis using w by auto
qed

lemma examined_bounds:
  "examined input a i out \<Longrightarrow> 2 \<le> i \<and> i < size_minus (length input) 2"
proof (induction rule: examined.induct)
  case examined_first
  then show ?case by simp
next
  case (examined_next i out i' out')
  from loop_body_index [OF examined_next.hyps(2)] examined_next.IH examined_next.hyps(3)
  show ?case by (auto split: if_splits)
qed

text \<open>Every examined state is a state of the loop: the run of \<open>pick\<close> from the
  start equals the run from that state.\<close>

lemma examined_scan:
  "examined input a i out \<Longrightarrow> scan input a 2 [] = scan input a i out"
proof (induction rule: examined.induct)
  case examined_first
  show ?case by simp
next
  case (examined_next i out i' out')
  from examined_bounds [OF examined_next.hyps(1)] examined_next.hyps(2)
  have "scan input a i out = scan input a i' out'" by (simp add: scan_step)
  with examined_next.IH show ?case by simp
qed

text \<open>The examined indices form one chain: an examined index above \<open>i\<close> is at
  least the index that follows \<open>i\<close>.\<close>

lemma examined_chain:
  "examined input a j outj \<Longrightarrow> examined input a i outi \<Longrightarrow> i < j
     \<Longrightarrow> (if is_peak_core input i then i + 2 else i + 1) \<le> j"
proof (induction arbitrary: i outi rule: examined.induct)
  case examined_first
  from examined_bounds [OF examined_first.prems(1)] examined_first.prems(2)
  show ?case by simp
next
  case (examined_next k outk j outj)
  note ex_i = examined_next.prems(1) and lt = examined_next.prems(2)
    and ex_k = examined_next.hyps(1) and IH = examined_next.IH
  have j: "j = (if is_peak_core input k then k + 2 else k + 1)"
    using loop_body_index [OF examined_next.hyps(2)] by simp
  consider "i < k" | "i = k" | "k < i" by linarith
  then show ?case
  proof cases
    case 1
    from IH [OF ex_i 1] j show ?thesis
      by (simp split: if_splits)
  next
    case 2
    with j show ?thesis by simp
  next
    case 3
    with lt j have i: "i = k + 1" by (simp split: if_splits)
    from ex_i show ?thesis
    proof (cases rule: examined.cases)
      case examined_first
      with i examined_bounds [OF ex_k] show ?thesis by simp
    next
      case (examined_next m outm)
      have im: "i = (if is_peak_core input m then m + 2 else m + 1)"
        using loop_body_index [OF examined_next(2)] by simp
      with i have "m \<le> k" by (simp split: if_splits)
      then consider "m < k" | "m = k" by linarith
      then show ?thesis
      proof cases
        case 1
        from IH [OF examined_next(1) 1] im i
        show ?thesis by simp
      next
        case 2
        with im j lt show ?thesis by (simp split: if_splits)
      qed
    qed
  qed
qed

text \<open>
  C5. In a state of the loop at index \<open>i\<close> whose window is inside the vector, the
  body hands the loop the index \<open>i + 2\<close> when \<open>i\<close> is accepted, whether the fit
  emitted a peak or not, and \<open>i + 1\<close> when it is rejected; that index is examined
  next if the loop condition holds there, and after an accepted \<open>i\<close> the index
  \<open>i + 1\<close> is never examined.
\<close>

theorem scan_advance:
  assumes "examined input a i out" "in_window input i"
  shows "(\<exists>out'. loop_body input a i out = Inr (if is_peak_core input i then i + 2 else i + 1, out')
            \<and> ((if is_peak_core input i then i + 2 else i + 1) < size_minus (length input) 2
                 \<longrightarrow> examined input a (if is_peak_core input i then i + 2 else i + 1) out'))
         \<and> (is_peak_core input i \<longrightarrow> (\<forall>out2. \<not> examined input a (i + 1) out2))"
proof (intro conjI impI allI)
  from loop_body_next [OF assms(2), of a out] obtain out' where
    b: "loop_body input a i out = Inr (if is_peak_core input i then i + 2 else i + 1, out')" ..
  with assms(1) have "(if is_peak_core input i then i + 2 else i + 1) < size_minus (length input) 2
      \<longrightarrow> examined input a (if is_peak_core input i then i + 2 else i + 1) out'"
    by (auto intro: examined_next)
  with b show "\<exists>out'. loop_body input a i out = Inr (if is_peak_core input i then i + 2 else i + 1, out')
            \<and> ((if is_peak_core input i then i + 2 else i + 1) < size_minus (length input) 2
                 \<longrightarrow> examined input a (if is_peak_core input i then i + 2 else i + 1) out')"
    by blast
next
  fix out2
  assume c: "is_peak_core input i"
  show "\<not> examined input a (i + 1) out2"
  proof
    assume "examined input a (i + 1) out2"
    from examined_chain [OF this assms(1)] c show False by simp
  qed
qed

theorem scan_advance_witness:
  "examined example_peaks True 2 [] \<and> in_window example_peaks 2 \<and> is_peak_core example_peaks 2
   \<and> (\<exists>out'. examined example_peaks True 4 out')
   \<and> (\<forall>out2. \<not> examined example_peaks True 3 out2)"
proof -
  have e: "examined example_peaks True 2 []"
    by (rule examined_first) (simp add: size_minus_def example_peaks_def)
  have w: "in_window example_peaks 2" by (simp add: in_window_def example_peaks_def)
  have c: "is_peak_core example_peaks 2"
    by (simp add: is_peak_core_def Let_def minus_dbl_def example_peaks_def)
  have b: "(4::nat) < size_minus (length example_peaks) 2"
    by (simp add: size_minus_def example_peaks_def)
  from scan_advance [OF e w] c b e w show ?thesis by auto
qed

section \<open>The output of the loop\<close>

text \<open>The loop only appends: a run that starts with some output returns that
  output followed by what the run from the same index returns on its own.\<close>

lemma loop_body_prepend:
  "loop_body input a i (p @ out) =
     (case loop_body input a i out of Inl e \<Rightarrow> Inl e | Inr (i', out') \<Rightarrow> Inr (i', p @ out'))"
  by (simp add: loop_body_def Let_def)

lemma scan_error:
  "i < size_minus (length input) 2 \<Longrightarrow> loop_body input a i out = Inl e
     \<Longrightarrow> scan input a i out = Inl e"
  by (subst scan.simps) simp

lemma scan_prepend:
  "scan input a i (p @ out) =
     (case scan input a i out of Inl e \<Rightarrow> Inl e | Inr ps \<Rightarrow> Inr (p @ ps))"
proof (induction input a i out rule: scan.induct)
  case (1 input a i out)
  show ?case
  proof (cases "i < size_minus (length input) 2")
    case False
    then show ?thesis by (simp add: scan_done)
  next
    case True
    show ?thesis
    proof (cases "loop_body input a i out")
      case (Inl e)
      then have "loop_body input a i (p @ out) = Inl e" by (simp add: loop_body_prepend)
      with True Inl show ?thesis by (simp add: scan_error)
    next
      case (Inr r)
      then obtain i' out' where r: "loop_body input a i out = Inr (i', out')"
        by (cases r) simp
      then have "loop_body input a i (p @ out) = Inr (i', p @ out')"
        by (simp add: loop_body_prepend)
      with True r "1.IH" [OF True r refl] show ?thesis by (simp add: scan_step)
    qed
  qed
qed

text \<open>An accepted index that the loop examines, with a valid fit: \<open>pick\<close> returns,
  and its peaks are the peaks emitted before that index, the peak of the fit, and
  the peaks that the loop emits from \<open>i + 2\<close> on.\<close>

lemma pick_emits:
  assumes "examined (peaks input) (intensity_type param = ''peakarea'') i out"
    and "in_window (peaks input) i" "is_peak_core (peaks input) i"
    and "fit = computeTPG (peaks input ! (i - 1)) (peaks input ! i) (peaks input ! (i + 1))"
    and "fit_ok fit"
  shows "\<exists>output rest. pick param input = Inr output
           \<and> scan (peaks input) (intensity_type param = ''peakarea'') (i + 2) [] = Inr rest
           \<and> peaks output =
               out @ [\<lparr>getMZ = fit_mu fit,
                       getIntensity =
                         (if intensity_type param = ''peakarea'' then fit_area fit
                          else computeScaledGaussian (fit_mu fit) (fit_mu fit) (fit_sigma fit)
                                 (fit_area fit))\<rparr>] @ rest"
proof -
  define a where "a = (intensity_type param = ''peakarea'')"
  define pk where "pk = \<lparr>getMZ = fit_mu fit,
      getIntensity = (if a then fit_area fit
                      else computeScaledGaussian (fit_mu fit) (fit_mu fit) (fit_sigma fit)
                             (fit_area fit))\<rparr>"
  from assms(1) have ex: "examined (peaks input) a i out" by (simp add: a_def)
  from assms(2) have "2 \<le> length (peaks input)" by (simp add: in_window_def)
  then obtain rest where rest: "scan (peaks input) a (i + 2) [] = Inr rest"
    using scan_returns [of "peaks input" "i + 2" a "[]"] by auto
  from loop_body_accept [OF assms(2,3,4), of a out] assms(5)
  have "loop_body (peaks input) a i out = Inr (i + 2, out @ [pk])" by (simp add: pk_def)
  with examined_bounds [OF ex]
  have "scan (peaks input) a i out = scan (peaks input) a (i + 2) (out @ [pk])"
    by (simp add: scan_step)
  also have "\<dots> = Inr ((out @ [pk]) @ rest)"
    using scan_prepend [of "peaks input" a "i + 2" "out @ [pk]" "[]"] rest by simp
  finally have "scan (peaks input) a 2 [] = Inr (out @ [pk] @ rest)"
    using examined_scan [OF ex] by simp
  then have "pick param input =
      Inr \<lparr>peaks = out @ [pk] @ rest, getRT = getRT input, getMSLevel = getMSLevel input,
           getName = getName input, getType = PEAKS,
           settings = settings input, meta_info = meta_info input\<rparr>"
    by (simp add: pick_def a_def)
  with rest show ?thesis unfolding pk_def a_def by auto
qed

section \<open>Signs and special values in the fit\<close>

lemma times_one: "x * Fin 1 = x" for x :: dbl
  by (cases x) simp_all

lemma times_NaN: "x * NaN = NaN" for x :: dbl
  by (cases x) simp_all

lemma divide_NaN: "x / NaN = NaN" for x :: dbl
  by (cases x) simp_all

lemma range64_finite: "\<bar>r\<bar> < 2 ^ 1024 \<Longrightarrow> \<exists>t. range64 r = Fin t"
  by (simp add: range64_def)

lemma range64_in_range: "\<bar>r\<bar> < 2 ^ 1024 \<Longrightarrow> 1 / 2 ^ 1075 < \<bar>r\<bar> \<Longrightarrow> range64 r = Fin r"
  by (simp add: range64_def)

lemma not_negative_range64: "0 \<le> r \<Longrightarrow> not_negative (range64 r)"
  by (simp add: range64_def not_negative_def)

lemma range64_one: "range64 1 = Fin 1"
  by (simp add: range64_def)

lemma not_negative_square: "not_negative (x * x)"
  by (cases x) (simp_all add: not_negative_def)

lemma not_negative_plus: "not_negative x \<Longrightarrow> not_negative y \<Longrightarrow> not_negative (x + y)"
  by (cases x; cases y) (simp_all add: not_negative_def)

lemma not_negative_times: "not_negative x \<Longrightarrow> not_negative y \<Longrightarrow> not_negative (x * y)"
  by (cases x; cases y) (simp_all add: not_negative_def)

lemma not_negative_dsqrt: "not_negative (dsqrt x)"
  by (cases x) (simp_all add: not_negative_def)

lemma third_not_integer: "(1 / 3 :: real) \<notin> \<int>"
proof
  assume "(1 / 3 :: real) \<in> \<int>"
  then obtain k :: int where "(1 / 3 :: real) = of_int k" by (auto elim: Ints_cases)
  then have "(1::real) = of_int (3 * k)" by simp
  then have "(1::int) = 3 * k" using of_int_eq_iff by fastforce
  then show False by presburger
qed

lemma not_negative_cube_root: "not_negative (dpow x (Fin 1 / Fin 3))"
proof (cases x)
  case (Fin a)
  then show ?thesis
    using third_not_integer by (simp add: not_negative_range64) (simp add: not_negative_def)
qed (simp_all add: not_negative_def odd_integer_def third_not_integer)

lemma not_negative_scaled_square: "not_negative (Fin 6 * s * s)"
  by (cases s) (simp_all add: not_negative_def)

lemma area_of_zero_sigma:
  "not_negative S \<Longrightarrow> Fin 0 * P * dexp (S / Fin 0) = NaN"
  by (cases S; cases P) (simp_all add: not_negative_def)

lemma area_of_infinite_sum:
  assumes "not_negative Q" "not_negative P" "not_negative V" "S = PInf \<or> S = NaN"
  shows "Q * P * dexp (S / V) = NaN \<or> Q * P * dexp (S / V) = PInf"
proof -
  from assms(3,4) have "dexp (S / V) = NaN \<or> dexp (S / V) = PInf"
    by (cases V) (auto simp: not_negative_def)
  moreover from assms(1,2) have "not_negative (Q * P)" by (rule not_negative_times)
  ultimately show ?thesis
    by (cases "Q * P") (auto simp: not_negative_def less_eq_real_def)
qed

lemma square_distance_infinite:
  "\<forall>r. m \<noteq> Fin r \<Longrightarrow> (x - m) * (x - m) = PInf \<or> (x - m) * (x - m) = NaN"
  by (cases m; cases x) (simp_all add: minus_dbl_def)

lemma sum_infinite:
  "a = PInf \<or> a = NaN \<Longrightarrow> b = PInf \<or> b = NaN \<Longrightarrow> c = PInf \<or> c = NaN
     \<Longrightarrow> a + b + c = PInf \<or> a + b + c = NaN" for a b c :: dbl
  by auto

lemma computeTPG_flag: "fit_ok (computeTPG p1 p2 p3) \<longleftrightarrow> fit_area (computeTPG p1 p2 p3) \<noteq> PInf"
  by (simp add: computeTPG_def Let_def)

lemma computeTPG_zero_sigma:
  assumes "fit_sigma (computeTPG p1 p2 p3) = Fin 0"
  shows "fit_area (computeTPG p1 p2 p3) = NaN"
proof -
  define mu where "mu = fit_mu (computeTPG p1 p2 p3)"
  define S where "S = (getMZ p1 - mu) * (getMZ p1 - mu) + (getMZ p2 - mu) * (getMZ p2 - mu)
                       + (getMZ p3 - mu) * (getMZ p3 - mu)"
  have "not_negative S"
    unfolding S_def by (intro not_negative_plus not_negative_square)
  then have "Fin 0 * dpow (getIntensity p1 * getIntensity p2 * getIntensity p3) (Fin 1 / Fin 3)
               * dexp (S / Fin 0) = NaN"
    by (rule area_of_zero_sigma)
  moreover have "fit_area (computeTPG p1 p2 p3)
      = dsqrt (Fin 2 * Fin pi * fit_sigma (computeTPG p1 p2 p3) * fit_sigma (computeTPG p1 p2 p3))
        * dpow (getIntensity p1 * getIntensity p2 * getIntensity p3) (Fin 1 / Fin 3)
        * dexp (S / (Fin 6 * fit_sigma (computeTPG p1 p2 p3) * fit_sigma (computeTPG p1 p2 p3)))"
    unfolding S_def mu_def by (simp add: computeTPG_def Let_def)
  ultimately show ?thesis using assms by simp
qed

lemma computeTPG_infinite_mu:
  assumes "\<forall>r. fit_mu (computeTPG p1 p2 p3) \<noteq> Fin r"
  shows "fit_area (computeTPG p1 p2 p3) = NaN \<or> fit_area (computeTPG p1 p2 p3) = PInf"
proof -
  define mu where "mu = fit_mu (computeTPG p1 p2 p3)"
  define sigma where "sigma = fit_sigma (computeTPG p1 p2 p3)"
  define S where "S = (getMZ p1 - mu) * (getMZ p1 - mu) + (getMZ p2 - mu) * (getMZ p2 - mu)
                       + (getMZ p3 - mu) * (getMZ p3 - mu)"
  from assms have "\<forall>r. mu \<noteq> Fin r" by (simp add: mu_def)
  then have "S = PInf \<or> S = NaN"
    unfolding S_def by (intro sum_infinite square_distance_infinite)
  then have "dsqrt (Fin 2 * Fin pi * sigma * sigma)
        * dpow (getIntensity p1 * getIntensity p2 * getIntensity p3) (Fin 1 / Fin 3)
        * dexp (S / (Fin 6 * sigma * sigma)) = NaN
     \<or> dsqrt (Fin 2 * Fin pi * sigma * sigma)
        * dpow (getIntensity p1 * getIntensity p2 * getIntensity p3) (Fin 1 / Fin 3)
        * dexp (S / (Fin 6 * sigma * sigma)) = PInf"
    by (intro area_of_infinite_sum not_negative_dsqrt not_negative_cube_root
          not_negative_scaled_square)
  moreover have "fit_area (computeTPG p1 p2 p3)
      = dsqrt (Fin 2 * Fin pi * sigma * sigma)
        * dpow (getIntensity p1 * getIntensity p2 * getIntensity p3) (Fin 1 / Fin 3)
        * dexp (S / (Fin 6 * sigma * sigma))"
    unfolding S_def mu_def sigma_def by (simp add: computeTPG_def Let_def)
  ultimately show ?thesis by simp
qed

lemma apex_height:
  assumes "(\<forall>r. m \<noteq> Fin r) \<longrightarrow> A = NaN" "s = Fin 0 \<longrightarrow> A = NaN"
  shows "computeScaledGaussian m m s A = A / dsqrt (Fin 2 * Fin pi * s * s)"
proof (cases m)
  case (Fin r)
  show ?thesis
  proof (cases s)
    case (Fin t)
    with assms \<open>m = Fin r\<close> show ?thesis
      by (cases "t = 0")
        (simp_all add: computeScaledGaussian_def minus_dbl_def times_one range64_one)
  qed (simp_all add: \<open>m = Fin r\<close> computeScaledGaussian_def minus_dbl_def times_one
        times_NaN divide_NaN range64_one)
qed (use assms in \<open>simp_all add: computeScaledGaussian_def minus_dbl_def times_NaN\<close>)

lemma computeTPG_apex_height:
  assumes "fit = computeTPG p1 p2 p3" "fit_ok fit"
  shows "computeScaledGaussian (fit_mu fit) (fit_mu fit) (fit_sigma fit) (fit_area fit)
           = fit_area fit / dsqrt (Fin 2 * Fin pi * fit_sigma fit * fit_sigma fit)"
proof (rule apex_height)
  from assms computeTPG_flag [of p1 p2 p3] have "fit_area fit \<noteq> PInf" by simp
  with computeTPG_infinite_mu [of p1 p2 p3] assms(1)
  show "(\<forall>r. fit_mu fit \<noteq> Fin r) \<longrightarrow> fit_area fit = NaN" by auto
  from computeTPG_zero_sigma [of p1 p2 p3] assms(1)
  show "fit_sigma fit = Fin 0 \<longrightarrow> fit_area fit = NaN" by simp
qed

lemma apex_height_not_finite:
  assumes "A = NaN \<or> A = NInf"
  shows "computeScaledGaussian m m s A \<noteq> Fin r"
proof -
  have q: "A / Q = NaN \<or> A / Q = PInf \<or> A / Q = NInf" for Q
    using assms by (cases Q) auto
  have "X * E \<noteq> Fin r" if "X = NaN \<or> X = PInf \<or> X = NInf" for X E
    using that by (cases E) (auto split: if_splits)
  from this [OF q] show ?thesis by (simp add: computeScaledGaussian_def)
qed

section \<open>The validity flag of the fit\<close>

text \<open>Three points of equal intensity lie on a line in \<open>(x, log y)\<close>. Every operation of
  the fit is exact on them: the product under the logarithm is \<open>2 * 0.25 * 2 = 1\<close>,
  the denominator is zero, the mean is \<open>0 / 0\<close>, the deviation is the square root
  of \<open>-1 / 0\<close>, and the area is not-a-number.\<close>

lemma computeTPG_flat_triplet:
  "computeTPG \<lparr>getMZ = Fin 0, getIntensity = Fin 2\<rparr> \<lparr>getMZ = Fin 1, getIntensity = Fin 2\<rparr>
     \<lparr>getMZ = Fin 2, getIntensity = Fin 2\<rparr>
   = \<lparr>fit_ok = True, fit_mu = NaN, fit_sigma = NaN, fit_area = NaN\<rparr>"
  by (simp add: computeTPG_def Let_def minus_dbl_def powr_neg_numeral range64_def)

text \<open>Inside \<open>pick\<close> the test of the five points rules out a collinear inner triplet
  as long as the m/z values ascend. In the folded spectrum the test accepts index
  2, and the points \<open>(1, 4)\<close>, \<open>(2, 8)\<close>, \<open>(1, 4)\<close> lie on a line.\<close>

lemma folded_fit:
  "computeTPG (folded_peaks ! Suc 0) (folded_peaks ! 2) (folded_peaks ! 3)
     = \<lparr>fit_ok = True, fit_mu = NaN, fit_sigma = NaN, fit_area = NaN\<rparr>"
  by (simp add: folded_peaks_def computeTPG_def Let_def minus_dbl_def powr_neg_numeral
        range64_def)

lemma folded_examined:
  "examined folded_peaks a 2 [] \<and> in_window folded_peaks 2 \<and> is_peak_core folded_peaks 2"
proof (intro conjI)
  show "examined folded_peaks a 2 []"
    by (rule examined_first) (simp add: size_minus_def folded_peaks_def)
  show "in_window folded_peaks 2" by (simp add: in_window_def folded_peaks_def)
  show "is_peak_core folded_peaks 2"
    by (simp add: is_peak_core_def Let_def minus_dbl_def folded_peaks_def)
qed

text \<open>
  C2. The fit of the three collinear points \<open>(0, 2)\<close>, \<open>(1, 2)\<close>, \<open>(2, 2)\<close> has an area
  that is not-a-number and the flag true; and for every accepted index that the
  loop examines, a true flag puts the peak of the fit into the output of \<open>pick\<close>.
  The specification says that the flag is true exactly when the area is finite,
  that it is false on collinear points, and that \<open>pick\<close> emits no peak for them.
\<close>

theorem collinear_fit_is_valid:
  "computeTPG \<lparr>getMZ = Fin 0, getIntensity = Fin 2\<rparr> \<lparr>getMZ = Fin 1, getIntensity = Fin 2\<rparr>
     \<lparr>getMZ = Fin 2, getIntensity = Fin 2\<rparr>
   = \<lparr>fit_ok = True, fit_mu = NaN, fit_sigma = NaN, fit_area = NaN\<rparr>
   \<and> (examined (peaks input) (intensity_type param = ''peakarea'') i out
        \<and> in_window (peaks input) i \<and> is_peak_core (peaks input) i
        \<and> fit = computeTPG (peaks input ! (i - 1)) (peaks input ! i) (peaks input ! (i + 1))
        \<and> fit_ok fit
      \<longrightarrow> (\<exists>output rest. pick param input = Inr output
             \<and> peaks output =
                 out @ [\<lparr>getMZ = fit_mu fit,
                         getIntensity =
                           (if intensity_type param = ''peakarea'' then fit_area fit
                            else computeScaledGaussian (fit_mu fit) (fit_mu fit) (fit_sigma fit)
                                   (fit_area fit))\<rparr>] @ rest))"
proof (intro conjI impI)
  assume "examined (peaks input) (intensity_type param = ''peakarea'') i out
        \<and> in_window (peaks input) i \<and> is_peak_core (peaks input) i
        \<and> fit = computeTPG (peaks input ! (i - 1)) (peaks input ! i) (peaks input ! (i + 1))
        \<and> fit_ok fit"
  then obtain res rest where "pick param input = Inr res"
    "peaks res =
       out @ [\<lparr>getMZ = fit_mu fit,
               getIntensity =
                 (if intensity_type param = ''peakarea'' then fit_area fit
                  else computeScaledGaussian (fit_mu fit) (fit_mu fit) (fit_sigma fit)
                         (fit_area fit))\<rparr>] @ rest"
    using pick_emits [of input param i out fit] by blast
  then show "\<exists>output rest. pick param input = Inr output
             \<and> peaks output =
                 out @ [\<lparr>getMZ = fit_mu fit,
                         getIntensity =
                           (if intensity_type param = ''peakarea'' then fit_area fit
                            else computeScaledGaussian (fit_mu fit) (fit_mu fit) (fit_sigma fit)
                                   (fit_area fit))\<rparr>] @ rest"
    by blast
qed (rule computeTPG_flat_triplet)

theorem collinear_fit_is_valid_witness:
  "is_peak_core folded_peaks 2
   \<and> computeTPG (folded_peaks ! 1) (folded_peaks ! 2) (folded_peaks ! 3)
       = \<lparr>fit_ok = True, fit_mu = NaN, fit_sigma = NaN, fit_area = NaN\<rparr>
   \<and> (\<exists>output rest.
         pick \<lparr>intensity_type = ''peakarea'', ms1_only = False\<rparr>
           \<lparr>peaks = folded_peaks, getRT = Fin 0, getMSLevel = 1, getName = [], getType = RAWDATA,
            settings = (), meta_info = ()\<rparr> = Inr output
         \<and> peaks output = \<lparr>getMZ = NaN, getIntensity = NaN\<rparr> # rest)"
proof -
  let ?param = "\<lparr>intensity_type = ''peakarea'', ms1_only = False\<rparr>"
  let ?input = "\<lparr>peaks = folded_peaks, getRT = Fin 0, getMSLevel = 1, getName = [],
                  getType = RAWDATA, settings = (), meta_info = ()\<rparr>"
  let ?fit = "\<lparr>fit_ok = True, fit_mu = NaN, fit_sigma = NaN, fit_area = NaN\<rparr>"
  have h: "examined (peaks ?input) (intensity_type ?param = ''peakarea'') 2 []
      \<and> in_window (peaks ?input) 2 \<and> is_peak_core (peaks ?input) 2
      \<and> ?fit = computeTPG (peaks ?input ! (2 - 1)) (peaks ?input ! 2) (peaks ?input ! (2 + 1))
      \<and> fit_ok ?fit"
    using folded_examined [of True] by (simp add: folded_fit)
  from collinear_fit_is_valid [THEN conjunct2, THEN mp, OF h]
  have "\<exists>output rest. pick ?param ?input = Inr output
      \<and> peaks output = \<lparr>getMZ = NaN, getIntensity = NaN\<rparr> # rest"
    by simp
  with folded_examined [of True] show ?thesis by (simp add: folded_fit)
qed

section \<open>The emitted peak\<close>

text \<open>
  C6. For every index \<open>i\<close> that the loop examines and the test accepts, with a valid
  fit: the fit is computed from the three samples \<open>i - 1\<close>, \<open>i\<close>, \<open>i + 1\<close>, and
  \<open>pick\<close> returns the peaks emitted before \<open>i\<close>, then exactly one peak for \<open>i\<close>,
  then the peaks that the loop emits from \<open>i + 2\<close> on. The m/z of that peak is the
  fitted mean; its intensity is the fitted area if the option \<open>intensity_type\<close> is
  \<open>peakarea\<close>, and otherwise the value of \<open>computeScaledGaussian\<close> at the mean, which
  is the area divided by the square root of \<open>2 pi sigma sigma\<close>.
\<close>

theorem accepted_candidate_emits_fit:
  assumes "examined (peaks input) (intensity_type param = ''peakarea'') i out"
    and "in_window (peaks input) i" "is_peak_core (peaks input) i"
    and "fit = computeTPG (peaks input ! (i - 1)) (peaks input ! i) (peaks input ! (i + 1))"
    and "fit_ok fit"
  shows "\<exists>output rest. pick param input = Inr output
           \<and> scan (peaks input) (intensity_type param = ''peakarea'') (i + 2) [] = Inr rest
           \<and> peaks output =
               out @ [\<lparr>getMZ = fit_mu fit,
                       getIntensity =
                         (if intensity_type param = ''peakarea'' then fit_area fit
                          else fit_area fit
                               / dsqrt (Fin 2 * Fin pi * fit_sigma fit * fit_sigma fit))\<rparr>] @ rest
           \<and> computeScaledGaussian (fit_mu fit) (fit_mu fit) (fit_sigma fit) (fit_area fit)
               = fit_area fit / dsqrt (Fin 2 * Fin pi * fit_sigma fit * fit_sigma fit)"
  using pick_emits [OF assms] computeTPG_apex_height [OF assms(4,5)] by auto

text \<open>The peak of the first example spectrum. Its fit is finite: the powers are
  \<open>4\<close>, \<open>1 / 64\<close> and \<open>4\<close> in the denominator and \<open>4 ^ 7\<close>, \<open>1 / 8 ^ 12\<close> and \<open>4 ^ 5\<close>
  in the mean, which is 3.\<close>

lemma example_fit:
  "\<exists>s A. computeTPG (example_peaks ! Suc 0) (example_peaks ! 2) (example_peaks ! 3)
           = \<lparr>fit_ok = True, fit_mu = Fin 3, fit_sigma = Fin s, fit_area = Fin A\<rparr>"
proof -
  have p6: "(1 / 4 :: real) ^ 6 = 1 / 4096" by (simp add: power_divide)
  have l4096: "ln (1 / 4096 :: real) = 6 * ln (1 / 4)"
  proof -
    have "ln (1 / 4096 :: real) = ln ((1 / 4) ^ 6)" by (simp only: p6)
    also have "\<dots> = real 6 * ln (1 / 4)" by (rule ln_realpow)
    finally show ?thesis by simp
  qed
  have neg: "ln (1 / 4 :: real) < 0" by simp
  define v where "v = - 1 / ln (1 / 4 :: real)"
  have v: "0 < v" using neg by (simp add: v_def field_simps)
  have denom: "dlog (dpow (Fin 4) (Fin 4 - Fin 3) * dpow (Fin 8) (Fin 2 - Fin 4)
                     * dpow (Fin 4) (Fin 3 - Fin 2)) = Fin (ln (1 / 4))"
    by (simp add: minus_dbl_def powr_neg_numeral range64_def)
  have numer: "dlog (dpow (Fin 4) (Fin 4 * Fin 4 - Fin 3 * Fin 3)
                     * dpow (Fin 8) (Fin 2 * Fin 2 - Fin 4 * Fin 4)
                     * dpow (Fin 4) (Fin 3 * Fin 3 - Fin 2 * Fin 2)) = Fin (ln (1 / 4096))"
    by (simp add: minus_dbl_def powr_neg_numeral range64_def)
  have mu: "Fin 0.5 * (Fin (ln (1 / 4096)) / Fin (ln (1 / 4))) = Fin 3"
    using neg by (simp add: l4096)
  have sigma: "dsqrt (Fin 0.5 * ((Fin 2 - Fin 4) * (Fin 3 - Fin 2) * (Fin 4 - Fin 3))
                      / Fin (ln (1 / 4))) = Fin (sqrt v)"
    using neg v by (simp add: minus_dbl_def v_def)
  have q: "dsqrt (Fin 2 * Fin pi * Fin (sqrt v) * Fin (sqrt v)) = Fin (sqrt (2 * pi * v))"
    using v by (simp add: mult.assoc)
  have "1 \<le> (128::real) powr (1 / 3)" by (rule ge_one_powr_ge_zero) simp_all
  moreover have "(128::real) powr (1 / 3) \<le> 128 powr 1" by (rule powr_mono) simp_all
  ultimately have p: "dpow (Fin 4 * Fin 8 * Fin 4) (Fin 1 / Fin 3) = Fin (128 powr (1 / 3))"
    by (simp add: range64_def)
  have "ln (4::real) < 2"
    using ln_realpow [of "2::real" 2] ln_2_less_1 by simp
  then have "2 / (6 * v) < (1::real)"
    using ln_div [of 1 "4::real"] by (simp add: v_def field_simps)
  then have "exp (2 / (6 * v)) < exp 1" by simp
  also have "\<dots> \<le> 3" by (rule exp_le)
  finally have "\<bar>exp (2 / (6 * v))\<bar> < 2 ^ 1024" by simp
  then obtain t where t: "range64 (exp (2 / (6 * v))) = Fin t"
    using range64_finite by blast
  have e: "dexp (((Fin 2 - Fin 3) * (Fin 2 - Fin 3) + (Fin 3 - Fin 3) * (Fin 3 - Fin 3)
                  + (Fin 4 - Fin 3) * (Fin 4 - Fin 3)) / (Fin 6 * Fin (sqrt v) * Fin (sqrt v)))
             = Fin t"
    using v t by (simp add: minus_dbl_def mult.assoc)
  have pk: "example_peaks ! Suc 0 = \<lparr>getMZ = Fin 2, getIntensity = Fin 4\<rparr>"
    "example_peaks ! 2 = \<lparr>getMZ = Fin 3, getIntensity = Fin 8\<rparr>"
    "example_peaks ! 3 = \<lparr>getMZ = Fin 4, getIntensity = Fin 4\<rparr>"
    by (simp_all add: example_peaks_def)
  show ?thesis
    unfolding pk computeTPG_def Let_def peak.select_convs denom numer mu sigma q p e by simp
qed

theorem accepted_candidate_emits_fit_witness:
  "is_peak_core example_peaks 2
   \<and> fit_ok (computeTPG (example_peaks ! 1) (example_peaks ! 2) (example_peaks ! 3))
   \<and> (\<exists>output.
         pick \<lparr>intensity_type = ''height'', ms1_only = False\<rparr>
           \<lparr>peaks = example_peaks, getRT = Fin 0, getMSLevel = 1, getName = [], getType = RAWDATA,
            settings = (), meta_info = ()\<rparr> = Inr output
         \<and> peaks output =
             [\<lparr>getMZ = fit_mu (computeTPG (example_peaks ! 1) (example_peaks ! 2) (example_peaks ! 3)),
               getIntensity =
                 fit_area (computeTPG (example_peaks ! 1) (example_peaks ! 2) (example_peaks ! 3))
                 / dsqrt (Fin 2 * Fin pi
                      * fit_sigma (computeTPG (example_peaks ! 1) (example_peaks ! 2) (example_peaks ! 3))
                      * fit_sigma (computeTPG (example_peaks ! 1) (example_peaks ! 2) (example_peaks ! 3)))\<rparr>])"
proof -
  let ?param = "\<lparr>intensity_type = ''height'', ms1_only = False\<rparr>"
  let ?input = "\<lparr>peaks = example_peaks, getRT = Fin 0, getMSLevel = 1, getName = [],
                  getType = RAWDATA, settings = (), meta_info = ()\<rparr>"
  let ?fit = "computeTPG (example_peaks ! Suc 0) (example_peaks ! 2) (example_peaks ! 3)"
  have e: "examined (peaks ?input) (intensity_type ?param = ''peakarea'') 2 []"
    using examined_first [of example_peaks False] by (simp add: size_minus_def example_peaks_def)
  have w: "in_window (peaks ?input) 2" by (simp add: in_window_def example_peaks_def)
  have c: "is_peak_core (peaks ?input) 2"
    by (simp add: is_peak_core_def Let_def minus_dbl_def example_peaks_def)
  have f: "?fit = computeTPG (peaks ?input ! (2 - 1)) (peaks ?input ! 2) (peaks ?input ! (2 + 1))"
    by simp
  have k: "fit_ok ?fit" using example_fit by auto
  have w4: "in_window example_peaks 4" by (simp add: in_window_def example_peaks_def)
  have c4: "\<not> is_peak_core example_peaks 4"
    by (simp add: is_peak_core_def Let_def minus_dbl_def example_peaks_def)
  have "scan example_peaks False 4 [] = scan example_peaks False 5 []"
    by (rule scan_step [OF _ loop_body_reject [OF w4 c4, simplified]])
       (simp add: size_minus_def example_peaks_def)
  also have "\<dots> = Inr []"
    by (rule scan_done) (simp add: size_minus_def example_peaks_def)
  finally have r: "scan example_peaks False 4 [] = Inr []" .
  from accepted_candidate_emits_fit [OF e w c f k] r c k show ?thesis
    by auto
qed

section \<open>Fits that are not finite\<close>

text \<open>
  C10. The flag of the fit is exactly the comparison of the area with positive
  infinity. So for an accepted index that the loop examines and whose fitted area
  is not-a-number or negative infinity, the fit counts as valid, and \<open>pick\<close>
  returns the peaks emitted before, then a peak for that index whose intensity is
  not a finite number, in either intensity mode, then the peaks of the rest of
  the scan.
\<close>

theorem non_finite_fit_is_emitted:
  "(fit_ok (computeTPG p1 p2 p3) \<longleftrightarrow> fit_area (computeTPG p1 p2 p3) \<noteq> PInf)
   \<and> (examined (peaks input) (intensity_type param = ''peakarea'') i out
        \<and> in_window (peaks input) i \<and> is_peak_core (peaks input) i
        \<and> fit = computeTPG (peaks input ! (i - 1)) (peaks input ! i) (peaks input ! (i + 1))
        \<and> (fit_area fit = NaN \<or> fit_area fit = NInf)
      \<longrightarrow> fit_ok fit
          \<and> (\<exists>output rest y.
                 pick param input = Inr output
                 \<and> scan (peaks input) (intensity_type param = ''peakarea'') (i + 2) [] = Inr rest
                 \<and> peaks output = out @ [\<lparr>getMZ = fit_mu fit, getIntensity = y\<rparr>] @ rest
                 \<and> y = (if intensity_type param = ''peakarea'' then fit_area fit
                         else computeScaledGaussian (fit_mu fit) (fit_mu fit) (fit_sigma fit)
                                (fit_area fit))
                 \<and> (\<forall>r. y \<noteq> Fin r)))"
proof (intro conjI impI)
  show "fit_ok (computeTPG p1 p2 p3) \<longleftrightarrow> fit_area (computeTPG p1 p2 p3) \<noteq> PInf"
    by (rule computeTPG_flag)
next
  assume h: "examined (peaks input) (intensity_type param = ''peakarea'') i out
        \<and> in_window (peaks input) i \<and> is_peak_core (peaks input) i
        \<and> fit = computeTPG (peaks input ! (i - 1)) (peaks input ! i) (peaks input ! (i + 1))
        \<and> (fit_area fit = NaN \<or> fit_area fit = NInf)"
  then show "fit_ok fit" using computeTPG_flag by auto
next
  assume h: "examined (peaks input) (intensity_type param = ''peakarea'') i out
        \<and> in_window (peaks input) i \<and> is_peak_core (peaks input) i
        \<and> fit = computeTPG (peaks input ! (i - 1)) (peaks input ! i) (peaks input ! (i + 1))
        \<and> (fit_area fit = NaN \<or> fit_area fit = NInf)"
  then have k: "fit_ok fit" using computeTPG_flag by auto
  from h have n: "fit_area fit = NaN \<or> fit_area fit = NInf" by blast
  then have "\<forall>r. (if intensity_type param = ''peakarea'' then fit_area fit
                  else computeScaledGaussian (fit_mu fit) (fit_mu fit) (fit_sigma fit)
                         (fit_area fit)) \<noteq> Fin r"
    using apex_height_not_finite [OF n] by auto
  moreover from h k obtain res rest where "pick param input = Inr res"
    "scan (peaks input) (intensity_type param = ''peakarea'') (i + 2) [] = Inr rest"
    "peaks res =
       out @ [\<lparr>getMZ = fit_mu fit,
               getIntensity =
                 (if intensity_type param = ''peakarea'' then fit_area fit
                  else computeScaledGaussian (fit_mu fit) (fit_mu fit) (fit_sigma fit)
                         (fit_area fit))\<rparr>] @ rest"
    using pick_emits [of input param i out fit] by blast
  ultimately show "\<exists>output rest y.
                 pick param input = Inr output
                 \<and> scan (peaks input) (intensity_type param = ''peakarea'') (i + 2) [] = Inr rest
                 \<and> peaks output = out @ [\<lparr>getMZ = fit_mu fit, getIntensity = y\<rparr>] @ rest
                 \<and> y = (if intensity_type param = ''peakarea'' then fit_area fit
                         else computeScaledGaussian (fit_mu fit) (fit_mu fit) (fit_sigma fit)
                                (fit_area fit))
                 \<and> (\<forall>r. y \<noteq> Fin r)"
    by blast
qed

text \<open>Finite samples sorted by m/z, at m/z 998 to 1002. In the mean of the fit
  \<open>pow(4, 2001)\<close> overflows to infinity and \<open>pow(8, -4000)\<close> underflows to zero:
  their product is not-a-number, and so are the mean and the area.\<close>

lemma distant_fit:
  "fit_mu (computeTPG (distant_peaks ! Suc 0) (distant_peaks ! 2) (distant_peaks ! 3)) = NaN
   \<and> fit_area (computeTPG (distant_peaks ! Suc 0) (distant_peaks ! 2) (distant_peaks ! 3)) = NaN"
proof -
  have pk: "distant_peaks ! Suc 0 = \<lparr>getMZ = Fin 999, getIntensity = Fin 4\<rparr>"
    "distant_peaks ! 2 = \<lparr>getMZ = Fin 1000, getIntensity = Fin 8\<rparr>"
    "distant_peaks ! 3 = \<lparr>getMZ = Fin 1001, getIntensity = Fin 4\<rparr>"
    by (simp_all add: distant_peaks_def)
  have over: "dpow (Fin 4) (Fin 1001 * Fin 1001 - Fin 1000 * Fin 1000) = PInf"
    by (simp add: minus_dbl_def range64_def)
  have under: "dpow (Fin 8) (Fin 999 * Fin 999 - Fin 1001 * Fin 1001) = Fin 0"
    by (simp add: minus_dbl_def range64_def powr_neg_numeral)
  show ?thesis
    unfolding pk computeTPG_def Let_def peak.select_convs over under
    by (simp add: minus_dbl_def times_NaN)
qed

theorem non_finite_fit_is_emitted_witness:
  "is_peak_core distant_peaks 2
   \<and> fit_area (computeTPG (distant_peaks ! 1) (distant_peaks ! 2) (distant_peaks ! 3)) = NaN
   \<and> fit_ok (computeTPG (distant_peaks ! 1) (distant_peaks ! 2) (distant_peaks ! 3))
   \<and> (\<exists>output.
         pick \<lparr>intensity_type = ''peakarea'', ms1_only = False\<rparr>
           \<lparr>peaks = distant_peaks, getRT = Fin 0, getMSLevel = 1, getName = [], getType = RAWDATA,
            settings = (), meta_info = ()\<rparr> = Inr output
         \<and> peaks output = [\<lparr>getMZ = NaN, getIntensity = NaN\<rparr>])"
proof -
  let ?param = "\<lparr>intensity_type = ''peakarea'', ms1_only = False\<rparr>"
  let ?input = "\<lparr>peaks = distant_peaks, getRT = Fin 0, getMSLevel = 1, getName = [],
                  getType = RAWDATA, settings = (), meta_info = ()\<rparr>"
  let ?fit = "computeTPG (distant_peaks ! Suc 0) (distant_peaks ! 2) (distant_peaks ! 3)"
  have e: "examined distant_peaks True 2 []"
    by (rule examined_first) (simp add: size_minus_def distant_peaks_def)
  have w: "in_window distant_peaks 2" by (simp add: in_window_def distant_peaks_def)
  have c: "is_peak_core distant_peaks 2"
    by (simp add: is_peak_core_def Let_def minus_dbl_def distant_peaks_def)
  have h: "examined (peaks ?input) (intensity_type ?param = ''peakarea'') 2 []
        \<and> in_window (peaks ?input) 2 \<and> is_peak_core (peaks ?input) 2
        \<and> ?fit = computeTPG (peaks ?input ! (2 - 1)) (peaks ?input ! 2) (peaks ?input ! (2 + 1))
        \<and> (fit_area ?fit = NaN \<or> fit_area ?fit = NInf)"
    using e w c distant_fit by simp
  have r: "scan distant_peaks True 4 [] = Inr []"
    by (rule scan_done) (simp add: size_minus_def distant_peaks_def)
  from non_finite_fit_is_emitted [THEN conjunct2, THEN mp, OF h] r
  have "fit_ok ?fit \<and> (\<exists>output. pick ?param ?input = Inr output
      \<and> peaks output = [\<lparr>getMZ = NaN, getIntensity = NaN\<rparr>])"
    using distant_fit by auto
  with c distant_fit show ?thesis by simp
qed

section \<open>Exactness of the fit\<close>

text \<open>Over the reals the closed form is exact. With the logarithms \<open>L x\<close> of the
  values of a Gaussian of mean \<open>mu0\<close> and deviation \<open>sigma0\<close> at three distinct
  points, the denominator of the fit is not zero, and the quotients that the fit
  takes for the mean and under the square root are \<open>mu0\<close> and the square of
  \<open>sigma0\<close>.\<close>

lemma gaussian_fit_reals:
  fixes mu0 sigma0 x1 x2 x3 K :: real
  assumes s: "0 < sigma0" and d: "x1 \<noteq> x2" "x1 \<noteq> x3" "x2 \<noteq> x3"
  defines "L \<equiv> \<lambda>x. K - (x - mu0) * (x - mu0) / (2 * sigma0 * sigma0)"
  defines "denom \<equiv> (x3 - x2) * L x1 + (x1 - x3) * L x2 + (x2 - x1) * L x3"
  shows "denom \<noteq> 0"
    and "0.5 * (((x3 * x3 - x2 * x2) * L x1 + (x1 * x1 - x3 * x3) * L x2
                 + (x2 * x2 - x1 * x1) * L x3) / denom) = mu0"
    and "0.5 * ((x1 - x3) * (x2 - x1) * (x3 - x2)) / denom = sigma0 * sigma0"
proof -
  define P where "P = (x1 - x3) * (x2 - x1) * (x3 - x2)"
  define v where "v = sigma0 * sigma0"
  have v: "v \<noteq> 0" using s by (simp add: v_def)
  have P: "P \<noteq> 0" using d by (simp add: P_def)
  have den: "denom = P / (2 * v)"
    using s unfolding denom_def L_def P_def v_def by (simp add: field_simps; algebra)
  have num: "(x3 * x3 - x2 * x2) * L x1 + (x1 * x1 - x3 * x3) * L x2 + (x2 * x2 - x1 * x1) * L x3
               = mu0 * P / v"
    using s unfolding L_def P_def v_def by (simp add: field_simps; algebra)
  from den v P show "denom \<noteq> 0" by simp
  from v P show "0.5 * (((x3 * x3 - x2 * x2) * L x1 + (x1 * x1 - x3 * x3) * L x2
                 + (x2 * x2 - x1 * x1) * L x3) / denom) = mu0"
    unfolding num den by simp
  from v P show "0.5 * ((x1 - x3) * (x2 - x1) * (x3 - x2)) / denom = sigma0 * sigma0"
    unfolding den P_def [symmetric] v_def [symmetric] by simp
qed

text \<open>The code takes the logarithm of a product of powers, and the powers leave
  the range of binary64. The points \<open>(99, 4)\<close>, \<open>(100, 8)\<close>, \<open>(101, 4)\<close> are values of
  the Gaussian \<open>8 * 2 ^ - (x - 100)\<^sup>2\<close>, of mean 100.\<close>

lemma samples_of_gaussian:
  "(8 :: real) * 2 powr - ((99 - 100) * (99 - 100)) = 4
   \<and> (8 :: real) * 2 powr - ((100 - 100) * (100 - 100)) = 8
   \<and> (8 :: real) * 2 powr - ((101 - 100) * (101 - 100)) = 4"
  by simp

text \<open>
  C7. On the three points \<open>(99, 4)\<close>, \<open>(100, 8)\<close>, \<open>(101, 4)\<close>, sampled from a Gaussian
  of mean 100, \<open>pow(8, 99 * 99 - 101 * 101)\<close> underflows to zero, the logarithm of
  the product is negative infinity, and the fit returns an infinite mean, an
  infinite area and the flag false. The specification says that the fit recovers
  the mean, the deviation and the area of the Gaussian within the tolerance of
  floating point.
\<close>

theorem computeTPG_underflow:
  "fit_mu (computeTPG \<lparr>getMZ = Fin 99, getIntensity = Fin 4\<rparr>
             \<lparr>getMZ = Fin 100, getIntensity = Fin 8\<rparr> \<lparr>getMZ = Fin 101, getIntensity = Fin 4\<rparr>) = PInf
   \<and> fit_area (computeTPG \<lparr>getMZ = Fin 99, getIntensity = Fin 4\<rparr>
             \<lparr>getMZ = Fin 100, getIntensity = Fin 8\<rparr> \<lparr>getMZ = Fin 101, getIntensity = Fin 4\<rparr>) = PInf
   \<and> \<not> fit_ok (computeTPG \<lparr>getMZ = Fin 99, getIntensity = Fin 4\<rparr>
             \<lparr>getMZ = Fin 100, getIntensity = Fin 8\<rparr> \<lparr>getMZ = Fin 101, getIntensity = Fin 4\<rparr>)"
proof -
  have neg: "ln (1 / 4 :: real) < 0" by simp
  define v where "v = - 1 / ln (1 / 4 :: real)"
  have v: "0 < v" using neg by (simp add: v_def field_simps)
  have denom: "dlog (dpow (Fin 4) (Fin 101 - Fin 100) * dpow (Fin 8) (Fin 99 - Fin 101)
                     * dpow (Fin 4) (Fin 100 - Fin 99)) = Fin (ln (1 / 4))"
    by (simp add: minus_dbl_def powr_neg_numeral range64_def)
  have under: "dpow (Fin 8) (Fin 99 * Fin 99 - Fin 101 * Fin 101) = Fin 0"
    by (simp add: minus_dbl_def range64_def powr_neg_numeral)
  have numer: "dlog (dpow (Fin 4) (Fin 101 * Fin 101 - Fin 100 * Fin 100) * Fin 0
                     * dpow (Fin 4) (Fin 100 * Fin 100 - Fin 99 * Fin 99)) = NInf"
    by (simp add: minus_dbl_def range64_def)
  have mu: "Fin 0.5 * (NInf / Fin (ln (1 / 4))) = PInf"
    using neg by simp
  have sigma: "dsqrt (Fin 0.5 * ((Fin 99 - Fin 101) * (Fin 100 - Fin 99) * (Fin 101 - Fin 100))
                      / Fin (ln (1 / 4))) = Fin (sqrt v)"
    using neg v by (simp add: minus_dbl_def v_def)
  have q: "dsqrt (Fin 2 * Fin pi * Fin (sqrt v) * Fin (sqrt v)) = Fin (sqrt (2 * pi * v))"
    using v by (simp add: mult.assoc)
  have "1 \<le> (128::real) powr (1 / 3)" by (rule ge_one_powr_ge_zero) simp_all
  moreover have "(128::real) powr (1 / 3) \<le> 128 powr 1" by (rule powr_mono) simp_all
  ultimately have p: "dpow (Fin 4 * Fin 8 * Fin 4) (Fin 1 / Fin 3) = Fin (128 powr (1 / 3))"
    by (simp add: range64_def)
  have e: "dexp (((Fin 99 - PInf) * (Fin 99 - PInf) + (Fin 100 - PInf) * (Fin 100 - PInf)
                  + (Fin 101 - PInf) * (Fin 101 - PInf)) / (Fin 6 * Fin (sqrt v) * Fin (sqrt v)))
             = PInf"
    using v by (simp add: minus_dbl_def mult.assoc)
  have "0 < sqrt (2 * pi * v) * 128 powr (1 / 3)" using v by simp
  then have a: "Fin (sqrt (2 * pi * v)) * Fin (128 powr (1 / 3)) * PInf = PInf"
    using v by simp
  show ?thesis
    unfolding computeTPG_def Let_def peak.select_convs under denom numer mu sigma q p e a
    by simp
qed

section \<open>The experiment driver\<close>

lemma experiment_loop_done:
  "experiment_loop param ms1 input (length input) out = Inr out"
  by (subst experiment_loop.simps) simp

lemma experiment_loop_pass:
  "scan_idx < length input \<Longrightarrow> scan_idx < length out \<Longrightarrow> ms1
     \<Longrightarrow> getMSLevel (input ! scan_idx) \<noteq> 1
     \<Longrightarrow> experiment_loop param ms1 input scan_idx out
         = experiment_loop param ms1 input (scan_idx + 1) (out[scan_idx := input ! scan_idx])"
  by (subst experiment_loop.simps) simp

lemma experiment_loop_pick:
  "scan_idx < length input \<Longrightarrow> scan_idx < length out
     \<Longrightarrow> \<not> (ms1 \<and> getMSLevel (input ! scan_idx) \<noteq> 1)
     \<Longrightarrow> experiment_loop param ms1 input scan_idx out
         = (case pick param (input ! scan_idx) of
              Inl e \<Rightarrow> Inl e
            | Inr s \<Rightarrow> experiment_loop param ms1 input (scan_idx + 1) (out[scan_idx := s]))"
  by (subst experiment_loop.simps) auto

text \<open>What one slot of the output holds after its turn.\<close>

lemma experiment_loop_slots:
  assumes "experiment_loop param ms1 input scan_idx out = Inr ss"
    and "length out = length input" "scan_idx \<le> length input"
  shows "length ss = length input
         \<and> (\<forall>k < length input.
               if k < scan_idx then ss ! k = out ! k
               else if ms1 \<and> getMSLevel (input ! k) \<noteq> 1 then ss ! k = input ! k
               else pick param (input ! k) = Inr (ss ! k))"
  using assms
proof (induction param ms1 input scan_idx out rule: experiment_loop.induct)
  case (1 param ms1 input scan_idx out)
  show ?case
  proof (cases "scan_idx = length input")
    case True
    with "1.prems" show ?thesis by (simp add: experiment_loop_done)
  next
    case False
    with "1.prems" have lt: "scan_idx < length input" "scan_idx < length out" by simp_all
    show ?thesis
    proof (cases "ms1 \<and> getMSLevel (input ! scan_idx) \<noteq> 1")
      case True
      with lt "1.prems" have r: "experiment_loop param ms1 input (scan_idx + 1)
          (out[scan_idx := input ! scan_idx]) = Inr ss"
        by (simp add: experiment_loop_pass)
      from "1.IH"(1) [OF False _ True r] lt "1.prems"
      have IH: "length ss = length input
         \<and> (\<forall>k < length input.
               if k < scan_idx + 1 then ss ! k = (out[scan_idx := input ! scan_idx]) ! k
               else if ms1 \<and> getMSLevel (input ! k) \<noteq> 1 then ss ! k = input ! k
               else pick param (input ! k) = Inr (ss ! k))"
        by simp
      show ?thesis
      proof (intro conjI allI impI)
        show "length ss = length input" using IH by simp
      next
        fix k assume k: "k < length input"
        with IH lt True show "if k < scan_idx then ss ! k = out ! k
               else if ms1 \<and> getMSLevel (input ! k) \<noteq> 1 then ss ! k = input ! k
               else pick param (input ! k) = Inr (ss ! k)"
          by (cases "k = scan_idx") (auto simp: nth_list_update split: if_splits)
      qed
    next
      case False
      with lt "1.prems" obtain s where p: "pick param (input ! scan_idx) = Inr s"
        and r: "experiment_loop param ms1 input (scan_idx + 1) (out[scan_idx := s]) = Inr ss"
        by (auto simp: experiment_loop_pick split: sum.splits)
      from "1.IH"(2) [OF \<open>scan_idx \<noteq> length input\<close> _ False p r] lt "1.prems"
      have IH: "length ss = length input
         \<and> (\<forall>k < length input.
               if k < scan_idx + 1 then ss ! k = (out[scan_idx := s]) ! k
               else if ms1 \<and> getMSLevel (input ! k) \<noteq> 1 then ss ! k = input ! k
               else pick param (input ! k) = Inr (ss ! k))"
        by simp
      show ?thesis
      proof (intro conjI allI impI)
        show "length ss = length input" using IH by simp
      next
        fix k assume k: "k < length input"
        with IH lt False p show "if k < scan_idx then ss ! k = out ! k
               else if ms1 \<and> getMSLevel (input ! k) \<noteq> 1 then ss ! k = input ! k
               else pick param (input ! k) = Inr (ss ! k)"
          by (cases "k = scan_idx") (auto simp: nth_list_update split: if_splits)
      qed
    qed
  qed
qed

text \<open>The loop returns when \<open>pick\<close> returns on every spectrum it is applied to.\<close>

lemma experiment_loop_returns:
  assumes "length out = length input" "scan_idx \<le> length input"
    and "\<forall>k < length input. \<not> (ms1 \<and> getMSLevel (input ! k) \<noteq> 1)
           \<longrightarrow> (\<exists>s. pick param (input ! k) = Inr s)"
  shows "\<exists>ss. experiment_loop param ms1 input scan_idx out = Inr ss"
  using assms
proof (induction param ms1 input scan_idx out rule: experiment_loop.induct)
  case (1 param ms1 input scan_idx out)
  show ?case
  proof (cases "scan_idx = length input")
    case True
    then show ?thesis by (simp add: experiment_loop_done)
  next
    case False
    with "1.prems" have lt: "scan_idx < length input" "scan_idx < length out" by simp_all
    show ?thesis
    proof (cases "ms1 \<and> getMSLevel (input ! scan_idx) \<noteq> 1")
      case True
      from "1.IH"(1) [OF False _ True] lt "1.prems"
      have "\<exists>ss. experiment_loop param ms1 input (scan_idx + 1)
          (out[scan_idx := input ! scan_idx]) = Inr ss" by simp
      with lt True show ?thesis by (simp add: experiment_loop_pass)
    next
      case False
      with lt "1.prems" obtain s where p: "pick param (input ! scan_idx) = Inr s" by blast
      from "1.IH"(2) [OF \<open>scan_idx \<noteq> length input\<close> _ False p] lt "1.prems"
      have "\<exists>ss. experiment_loop param ms1 input (scan_idx + 1) (out[scan_idx := s]) = Inr ss"
        by simp
      with lt False p show ?thesis by (simp add: experiment_loop_pick)
    qed
  qed
qed

text \<open>The driver on experiments whose picked spectra have two samples or more:
  the output has the settings and the size of the input, a spectrum that is
  passed through is the input spectrum itself, and every other slot holds the
  result of \<open>pick\<close>.\<close>

lemma pickExperiment_dispatch:
  assumes "\<forall>k < length (spectra input).
             \<not> (ms1_only param \<and> getMSLevel (spectra input ! k) \<noteq> 1)
               \<longrightarrow> 2 \<le> length (peaks (spectra input ! k))"
  shows "\<exists>out. pickExperiment param blank input = Inr out
           \<and> experimental_settings out = experimental_settings input
           \<and> length (spectra out) = length (spectra input)
           \<and> (\<forall>k < length (spectra input).
                 if ms1_only param \<and> getMSLevel (spectra input ! k) \<noteq> 1
                 then spectra out ! k = spectra input ! k
                 else pick param (spectra input ! k) = Inr (spectra out ! k))"
proof -
  have "\<forall>k < length (spectra input). \<not> (ms1_only param \<and> getMSLevel (spectra input ! k) \<noteq> 1)
           \<longrightarrow> (\<exists>s. pick param (spectra input ! k) = Inr s)"
    using assms pick_returns by blast
  then obtain ss where
    l: "experiment_loop param (ms1_only param) (spectra input) 0
          (replicate (length (spectra input)) blank) = Inr ss"
    using experiment_loop_returns
      [of "replicate (length (spectra input)) blank" "spectra input" 0 "ms1_only param" param]
    by auto
  from experiment_loop_slots [OF l] have "length ss = length (spectra input)
         \<and> (\<forall>k < length (spectra input).
               if ms1_only param \<and> getMSLevel (spectra input ! k) \<noteq> 1 then ss ! k = spectra input ! k
               else pick param (spectra input ! k) = Inr (ss ! k))"
    by simp
  with l show ?thesis by (simp add: pickExperiment_def)
qed

text \<open>
  C8. An experiment whose only spectrum is of level 1 and has no sample: the
  driver picks it, and \<open>pick\<close> reads outside the vector (see C3), whatever the
  options. The specification says that the driver returns an experiment of the
  same size whose spectrum is the picked one.
\<close>

theorem pickExperiment_empty_spectrum:
  "pickExperiment param blank
     \<lparr>spectra = [\<lparr>peaks = [], getRT = Fin 0, getMSLevel = 1, getName = [], getType = RAWDATA,
                  settings = s, meta_info = m\<rparr>],
      experimental_settings = e\<rparr> = Inl OutOfBounds"
  by (simp add: pickExperiment_def experiment_loop_pick pick_def scan_out_of_bounds)

end
